theory Spec2Isabelle
  imports Complex_Main "HOL-Library.Word" "HOL-Library.FSet" "HOL-Library.AList"
begin

unbundle bit_operations_syntax

text \<open>
  The two managers of the node, embedded from their TypeScript source: the PrivacyManager
  (policies, trust, consent, authenticated encryption) and the NetworkManager (connection
  table, heartbeat, validation and dispatch of messages, sending). Each method is a
  function from the manager's state to its result and the state after the call; a
  \<^verbatim>\<open>throw\<close> that leaves a method is a value of its result.
\<close>

section \<open>Values shared by both managers\<close>

text \<open>
  A JavaScript \<^verbatim>\<open>number\<close> that the code only compares (a trust score, a
  retention period, a timestamp) is a \<^typ>\<open>real\<close>, and the whole numbers of the network
  configuration are \<^typ>\<open>int\<close>; 0 is the falsy number. A \<^verbatim>\<open>string\<close> is a
  \<^typ>\<open>string\<close>, and the empty string is the one falsy string. A \<^verbatim>\<open>Buffer\<close> is
  a list of bytes.
\<close>

type_synonym byte = "8 word"

text \<open>What a \<^verbatim>\<open>throw\<close> carries: an \<^verbatim>\<open>Error\<close> built by the code itself
  (with its message), a \<^verbatim>\<open>TypeError\<close> of the runtime (reading a property of
  \<^verbatim>\<open>undefined\<close>), an exception raised inside a library call
  (\<^verbatim>\<open>crypto\<close>, \<^verbatim>\<open>JSON\<close>), one raised by a transport's
  \<^verbatim>\<open>send\<close>, or the \<^verbatim>\<open>ERR_UNHANDLED_ERROR\<close> of an emitter whose
  \<^verbatim>\<open>error\<close> event nobody listens to.\<close>

datatype js_error =
    Error string
  | TypeError
  | LibraryError
  | TransportError
  | UnhandledError

section \<open>PrivacyManager: data model\<close>

record SharingPolicy =
  allowedNodes :: "string list"
  requireConsent :: bool
  minimumTrust :: real

text \<open>\<^verbatim>\<open>validatePolicy\<close> tests \<^verbatim>\<open>!policy.allowedOperations\<close>, which is
  true of a missing field and false of every array, the empty one included. The field is
  therefore optional in the model: \<open>None\<close> is the missing field.\<close>

record PrivacyPolicy =
  dataType :: string
  allowedOperations :: "string list option"
  retentionPeriod :: real
  sharingPolicy :: SharingPolicy

record EncryptedData =
  data :: string
  iv :: string
  tag :: string

text \<open>The events a PrivacyManager emits, with their payloads.\<close>

datatype privacy_event =
    ErrorEvent js_error
  | PolicyUpdated string PrivacyPolicy
  | ConsentGranted string string string
  | ConsentRevoked string string string
  | TrustScoreUpdated string real

text \<open>The four private fields of the class, and what it inherits from
  \<^verbatim>\<open>EventEmitter\<close>: the events emitted so far (oldest first) and the number of
  listeners registered for \<^verbatim>\<open>error\<close>. A \<^verbatim>\<open>Map\<close> that the code only reads
  by key is a partial function; a \<^verbatim>\<open>Set\<close> of strings, of which the code uses
  \<^verbatim>\<open>add\<close>, \<^verbatim>\<open>delete\<close> and \<^verbatim>\<open>size\<close>, is a finite set.\<close>

record PrivacyManager =
  policies :: "string \<rightharpoonup> PrivacyPolicy"
  encryptionKey :: "byte list"
  trustScores :: "string \<rightharpoonup> real"
  consentRegistry :: "string \<rightharpoonup> string fset"
  emitted :: "privacy_event list"
  errorListeners :: nat

text \<open>The class inherits \<^verbatim>\<open>emit\<close> from the runtime's \<^verbatim>\<open>EventEmitter\<close>. For
  an event other than \<^verbatim>\<open>error\<close>, \<^verbatim>\<open>emit\<close> calls the listeners there are and
  returns: the model records the event. What a listener does is outside the model.\<close>

definition emit :: "privacy_event \<Rightarrow> PrivacyManager \<Rightarrow> PrivacyManager" where
  "emit e s = s\<lparr>emitted := emitted s @ [e]\<rparr>"

text \<open>\<^verbatim>\<open>this.emit('error', error)\<close>: with no listener for \<^verbatim>\<open>error\<close> the
  emitter throws the error it was given (every error this class emits is an
  \<^verbatim>\<open>Error\<close> object), and nothing is delivered.\<close>

definition emit_error :: "js_error \<Rightarrow> PrivacyManager \<Rightarrow> js_error + PrivacyManager" where
  "emit_error e s = (if errorListeners s = 0 then Inl e else Inr (emit (ErrorEvent e) s))"

text \<open>The two statements \<^verbatim>\<open>this.emit('error', error); return null;\<close>, which
  stand outside every \<^verbatim>\<open>try\<close>: what the emitter throws leaves the method.\<close>

definition error_then_null ::
  "js_error \<Rightarrow> PrivacyManager \<Rightarrow> (js_error + 'a option) \<times> PrivacyManager" where
  "error_then_null e s =
     (case emit_error e s of
        Inl thrown \<Rightarrow> (Inl thrown, s)
      | Inr s' \<Rightarrow> (Inr None, s'))"

text \<open>The constructor: empty maps, a key of 32 bytes drawn by
  \<^verbatim>\<open>randomBytes(32)\<close>, here the argument, and no listener.\<close>

definition PrivacyManager_new :: "byte list \<Rightarrow> PrivacyManager" where
  "PrivacyManager_new key =
     \<lparr>policies = Map.empty, encryptionKey = key, trustScores = Map.empty,
      consentRegistry = Map.empty, emitted = [], errorListeners = 0\<rparr>"

section \<open>PrivacyManager: policies, consent and trust\<close>

definition validatePolicy :: "PrivacyPolicy \<Rightarrow> js_error + bool" where
  "validatePolicy policy =
     (if dataType policy = [] \<or> allowedOperations policy = None
      then Inl (Error ''Invalid policy: missing required fields'')
      else if retentionPeriod policy \<le> 0
      then Inl (Error ''Invalid policy: retention period must be positive'')
      else Inr True)"

text \<open>\<^verbatim>\<open>setPolicy\<close> validates first, so a throw leaves the manager as it was:
  the result \<open>Inl\<close> carries no new state. The key of the store is the
  \<^verbatim>\<open>dataType\<close> argument, the validated name is \<^verbatim>\<open>policy.dataType\<close>.\<close>

definition setPolicy ::
  "string \<Rightarrow> PrivacyPolicy \<Rightarrow> PrivacyManager \<Rightarrow> js_error + PrivacyManager" where
  "setPolicy dt policy s =
     (case validatePolicy policy of
        Inl e \<Rightarrow> Inl e
      | Inr _ \<Rightarrow>
          Inr (emit (PolicyUpdated dt policy) (s\<lparr>policies := (policies s)(dt \<mapsto> policy)\<rparr>)))"

text \<open>The template string \<^verbatim>\<open>`${grantor}:${dataType}`\<close>.\<close>

definition consentKey :: "string \<Rightarrow> string \<Rightarrow> string" where
  "consentKey node dt = node @ '':'' @ dt"

definition grantConsent :: "string \<Rightarrow> string \<Rightarrow> string \<Rightarrow> PrivacyManager \<Rightarrow> PrivacyManager" where
  "grantConsent grantor grantee dt s =
     (let k = consentKey grantor dt;
          reg = (if consentRegistry s k = None then (consentRegistry s)(k \<mapsto> {||})
                 else consentRegistry s);
          reg' = (case reg k of None \<Rightarrow> reg | Some consents \<Rightarrow> reg(k \<mapsto> finsert grantee consents))
      in emit (ConsentGranted grantor grantee dt) (s\<lparr>consentRegistry := reg'\<rparr>))"

definition revokeConsent :: "string \<Rightarrow> string \<Rightarrow> string \<Rightarrow> PrivacyManager \<Rightarrow> PrivacyManager" where
  "revokeConsent grantor grantee dt s =
     (let k = consentKey grantor dt;
          reg' = (case consentRegistry s k of
                    None \<Rightarrow> consentRegistry s
                  | Some consents \<Rightarrow> (consentRegistry s)(k \<mapsto> consents |-| {|grantee|}))
      in emit (ConsentRevoked grantor grantee dt) (s\<lparr>consentRegistry := reg'\<rparr>))"

text \<open>\<^verbatim>\<open>this.consentRegistry.get(consentKey)?.size > 0 || false\<close>: a missing entry
  gives \<^verbatim>\<open>undefined > 0\<close>, which is false.\<close>

definition checkConsent :: "string \<Rightarrow> string \<Rightarrow> PrivacyManager \<Rightarrow> bool" where
  "checkConsent nodeId dt s =
     (case consentRegistry s (consentKey nodeId dt) of
        None \<Rightarrow> False
      | Some consents \<Rightarrow> 0 < fcard consents)"

text \<open>\<^verbatim>\<open>this.trustScores.get(nodeId) || 0\<close>: a missing entry and the falsy
  number 0 both read as 0.\<close>

definition trustScoreOf :: "PrivacyManager \<Rightarrow> string \<Rightarrow> real" where
  "trustScoreOf s nodeId =
     (case trustScores s nodeId of None \<Rightarrow> 0 | Some v \<Rightarrow> if v = 0 then 0 else v)"

text \<open>\<^verbatim>\<open>checkPermission\<close> returns its answer and the manager it was called on:
  the body assigns to no field and emits nothing. Reading
  \<^verbatim>\<open>policy.allowedOperations.includes\<close> of a stored policy without the field
  is a \<^verbatim>\<open>TypeError\<close>; the conjunction is evaluated left to right, and that
  operand comes first.\<close>

definition checkPermission ::
  "string \<Rightarrow> string \<Rightarrow> string \<Rightarrow> PrivacyManager \<Rightarrow> (js_error + bool) \<times> PrivacyManager" where
  "checkPermission nodeId dt operation s =
     (case policies s dt of
        None \<Rightarrow> (Inr False, s)
      | Some policy \<Rightarrow>
          (let trustScore = trustScoreOf s nodeId;
               hasConsent = checkConsent nodeId dt s
           in case allowedOperations policy of
                None \<Rightarrow> (Inl TypeError, s)
              | Some ops \<Rightarrow>
                  (Inr (operation \<in> set ops \<and>
                        nodeId \<in> set (allowedNodes (sharingPolicy policy)) \<and>
                        minimumTrust (sharingPolicy policy) \<le> trustScore \<and>
                        (\<not> requireConsent (sharingPolicy policy) \<or> hasConsent)), s)))"

definition updateTrustScore ::
  "string \<Rightarrow> real \<Rightarrow> PrivacyManager \<Rightarrow> js_error + PrivacyManager" where
  "updateTrustScore nodeId score s =
     (if score < 0 \<or> 1 < score then Inl (Error ''Trust score must be between 0 and 1'')
      else Inr (emit (TrustScoreUpdated nodeId score)
                  (s\<lparr>trustScores := (trustScores s)(nodeId \<mapsto> score)\<rparr>)))"

section \<open>The runtime library\<close>

text \<open>
  \<^verbatim>\<open>crypto\<close> and \<^verbatim>\<open>JSON\<close> belong to the Node.js runtime, not to the
  repository, so the managers take them as a parameter. \<open>None\<close> is a call that throws.
  \<^item> \<open>JSON_stringify\<close>: \<open>None\<close> also stands for the result \<^verbatim>\<open>undefined\<close>,
    which \<^verbatim>\<open>cipher.update\<close> refuses with a \<^verbatim>\<open>TypeError\<close>.
  \<^item> \<open>JSON_parse\<close>: \<open>None\<close> is a \<^verbatim>\<open>SyntaxError\<close>.
  \<^item> \<open>gcm_encrypt key nonce plaintext\<close> is \<^verbatim>\<open>createCipheriv('aes-256-gcm', key,
    nonce)\<close>, then \<^verbatim>\<open>update\<close> and \<^verbatim>\<open>final\<close> concatenated, then
    \<^verbatim>\<open>getAuthTag()\<close>: the ciphertext and the tag.
  \<^item> \<open>gcm_decrypt key nonce tag ciphertext\<close> is \<^verbatim>\<open>createDecipheriv\<close>,
    \<^verbatim>\<open>setAuthTag\<close>, \<^verbatim>\<open>update\<close> and \<^verbatim>\<open>final\<close>: the plaintext, or
    \<open>None\<close> when any of them throws (\<^verbatim>\<open>final\<close> throws on a tag that does not
    verify).
  The type \<open>'v\<close> is that of the values handed to \<^verbatim>\<open>JSON\<close>.
\<close>

record 'v library =
  JSON_stringify :: "'v \<Rightarrow> string option"
  JSON_parse :: "string \<Rightarrow> 'v option"
  gcm_encrypt :: "byte list \<Rightarrow> byte list \<Rightarrow> byte list \<Rightarrow> (byte list \<times> byte list) option"
  gcm_decrypt :: "byte list \<Rightarrow> byte list \<Rightarrow> byte list \<Rightarrow> byte list \<Rightarrow> byte list option"

text \<open>\<^verbatim>\<open>buffer.toString('hex')\<close>: two lower-case digits for each byte.\<close>

definition hex_digit :: "nat \<Rightarrow> char" where
  "hex_digit n = ''0123456789abcdef'' ! (n mod 16)"

definition toString_hex :: "byte list \<Rightarrow> string" where
  "toString_hex bs = concat (map (\<lambda>b. [hex_digit (unat b div 16), hex_digit (unat b mod 16)]) bs)"

definition hex_value :: "char \<Rightarrow> nat option" where
  "hex_value ch =
     (let c = (of_char ch :: nat)
      in if 48 \<le> c \<and> c \<le> 57 then Some (c - 48)
         else if 97 \<le> c \<and> c \<le> 102 then Some (c - 87)
         else if 65 \<le> c \<and> c \<le> 70 then Some (c - 55)
         else None)"

text \<open>\<^verbatim>\<open>Buffer.from(str, 'hex')\<close> never throws: it decodes pairs of digits and stops
  at the first pair that is not hexadecimal, or at a last digit left alone.\<close>

fun Buffer_from_hex :: "string \<Rightarrow> byte list" where
  "Buffer_from_hex (a # b # cs) =
     (case (hex_value a, hex_value b) of
        (Some h, Some l) \<Rightarrow> word_of_nat (16 * h + l) # Buffer_from_hex cs
      | _ \<Rightarrow> [])"
| "Buffer_from_hex _ = []"

text \<open>The \<^verbatim>\<open>'hex'\<close> input encoding of \<^verbatim>\<open>decipher.update\<close>: a text with an
  odd number of characters is refused with an exception (\<open>None\<close>); any other text is
  decoded as \<^verbatim>\<open>Buffer.from\<close> decodes it.\<close>

definition update_input_hex :: "string \<Rightarrow> byte list option" where
  "update_input_hex str = (if odd (length str) then None else Some (Buffer_from_hex str))"

text \<open>A \<^typ>\<open>string\<close> is the UTF-8 text of the JavaScript string, one \<^typ>\<open>char\<close> for
  each byte, so the \<^verbatim>\<open>'utf8'\<close> encodings copy the bytes.\<close>

definition utf8_encode :: "string \<Rightarrow> byte list" where
  "utf8_encode str = map (\<lambda>c. word_of_nat (of_char c)) str"

definition utf8_decode :: "byte list \<Rightarrow> string" where
  "utf8_decode bs = map (\<lambda>b. char_of (unat b)) bs"

section \<open>PrivacyManager: encryption\<close>

text \<open>
  \<^verbatim>\<open>encryptData\<close>. The argument \<open>rnd\<close> is what \<^verbatim>\<open>randomBytes(16)\<close> returns
  on this call. Everything after the policy lookup runs inside \<^verbatim>\<open>try\<close>: a throw
  there goes to the \<^verbatim>\<open>catch\<close> branch, which emits \<^verbatim>\<open>error\<close> and returns
  \<^verbatim>\<open>null\<close>, here \<open>Inr None\<close>. \<open>Inl\<close> is the rejection of the promise, by what
  the emitter throws.
\<close>

definition encryptData ::
  "'v library \<Rightarrow> byte list \<Rightarrow> 'v \<Rightarrow> string \<Rightarrow> PrivacyManager
     \<Rightarrow> (js_error + EncryptedData option) \<times> PrivacyManager" where
  "encryptData L rnd v dt s =
     (case policies s dt of
        None \<Rightarrow>
          error_then_null (Error (''No privacy policy found for data type: '' @ dt)) s
      | Some policy \<Rightarrow>
          (case JSON_stringify L v of
             None \<Rightarrow> error_then_null LibraryError s
           | Some jsonData \<Rightarrow>
               (case gcm_encrypt L (encryptionKey s) rnd (utf8_encode jsonData) of
                  None \<Rightarrow> error_then_null LibraryError s
                | Some (encrypted, t) \<Rightarrow>
                    (Inr (Some \<lparr>data = toString_hex encrypted, iv = toString_hex rnd,
                                tag = toString_hex t\<rparr>), s))))"

text \<open>
  \<^verbatim>\<open>decryptData\<close>: the whole body is inside \<^verbatim>\<open>try\<close>. The text that
  \<^verbatim>\<open>update\<close> returns before \<^verbatim>\<open>final\<close> has checked the tag is a local
  variable, dropped when \<^verbatim>\<open>final\<close> throws. A successful parse returns its value
  (\<open>Inr (Some v)\<close>); \<open>Inr None\<close> is the \<^verbatim>\<open>null\<close> of the \<^verbatim>\<open>catch\<close> branch,
  and \<open>Inl\<close> the rejection of the promise when the emitter throws in that branch.
\<close>

definition decryptData ::
  "'v library \<Rightarrow> EncryptedData \<Rightarrow> PrivacyManager \<Rightarrow> (js_error + 'v option) \<times> PrivacyManager" where
  "decryptData L encryptedData s =
     (case update_input_hex (data encryptedData) of
        None \<Rightarrow> error_then_null LibraryError s
      | Some ciphertext \<Rightarrow>
          (case gcm_decrypt L (encryptionKey s) (Buffer_from_hex (iv encryptedData))
                  (Buffer_from_hex (tag encryptedData)) ciphertext of
             None \<Rightarrow> error_then_null LibraryError s
           | Some decrypted \<Rightarrow>
               (case JSON_parse L (utf8_decode decrypted) of
                  None \<Rightarrow> error_then_null LibraryError s
                | Some v \<Rightarrow> (Inr (Some v), s))))"

section \<open>NetworkManager: data model\<close>

text \<open>The string enum \<^verbatim>\<open>MessageType\<close> and the string each member stands for.\<close>

datatype MessageType =
    RESOURCE_REQUEST
  | RESOURCE_RESPONSE
  | DATA_SHARE
  | PATTERN_UPDATE
  | CONSENSUS_REQUEST
  | NODE_DISCOVERY

fun MessageType_value :: "MessageType \<Rightarrow> string" where
  "MessageType_value RESOURCE_REQUEST = ''RESOURCE_REQUEST''"
| "MessageType_value RESOURCE_RESPONSE = ''RESOURCE_RESPONSE''"
| "MessageType_value DATA_SHARE = ''DATA_SHARE''"
| "MessageType_value PATTERN_UPDATE = ''PATTERN_UPDATE''"
| "MessageType_value CONSENSUS_REQUEST = ''CONSENSUS_REQUEST''"
| "MessageType_value NODE_DISCOVERY = ''NODE_DISCOVERY''"

text \<open>
  A \<^verbatim>\<open>Message\<close> as \<^verbatim>\<open>JSON.parse\<close> delivers it: the fields \<^verbatim>\<open>id\<close>
  and \<^verbatim>\<open>type\<close> are \<open>msg_id\<close> and \<open>msg_type\<close> here; \<open>msg_type\<close> is any string
  of the wire, not only one of the six; a string field that is missing reads like the empty
  one (both are falsy); \<open>timestamp\<close> is \<open>None\<close> when the field is missing.
\<close>

record 'p Message =
  msg_id :: string
  msg_type :: string
  sender :: string
  recipient :: string
  payload :: 'p
  timestamp :: "real option"
  signature :: "string option"

text \<open>What \<^verbatim>\<open>JSON.parse\<close> can deliver for a frame, as far as
  \<^verbatim>\<open>handleMessage\<close> tells the values apart: \<^verbatim>\<open>null\<close>, of which no property
  can be read; a value with none of the message's fields (a number, a string, a boolean,
  an array); or an object, read as a \<^verbatim>\<open>Message\<close>.\<close>

datatype 'p frame_value =
    JsonNull
  | JsonOther
  | JsonObject "'p Message"

record NetworkConfig =
  port :: int
  maxConnections :: int
  discoveryInterval :: int
  heartbeatInterval :: int

text \<open>A transport object of the \<^verbatim>\<open>ws\<close> package, as far as the manager reads it:
  its \<^verbatim>\<open>readyState\<close>, and whether its \<^verbatim>\<open>send\<close> throws.\<close>

datatype ReadyState = CONNECTING | OPEN | CLOSING | CLOSED

record WebSocket =
  readyState :: ReadyState
  sendThrows :: bool

type_synonym ws_ref = nat
type_synonym timer_ref = nat

text \<open>The calls the manager makes on transport objects.\<close>

datatype ws_call =
    Send ws_ref string
  | Ping ws_ref
  | Close ws_ref "(nat \<times> string) option"

text \<open>The events a NetworkManager emits. The four shapes of \<^verbatim>\<open>error\<close> payload are
  four constructors: the server's, a connection's, \<^verbatim>\<open>handleMessage\<close>'s and
  \<^verbatim>\<open>sendMessage\<close>'s.\<close>

datatype 'p net_event =
    NodeConnected string
  | NodeDisconnected string
  | MessageReceived string "'p Message"
  | MessageSent "'p Message"
  | MessageBroadcast "'p Message"
  | ResourceRequest "'p Message"
  | DataShare "'p Message"
  | PatternUpdate "'p Message"
  | ConsensusRequest "'p Message"
  | NodeDiscovery "'p Message"
  | UnknownMessageType "'p Message"
  | ServerError js_error
  | ConnectionError string js_error
  | InboundError string js_error string
  | SendError "'p Message" js_error
  | ServerClosed

text \<open>
  The state. \<open>connections\<close> and \<open>heartbeatIntervals\<close> are the two \<^verbatim>\<open>Map\<close>s of the
  class, kept as association lists in insertion order (\<^verbatim>\<open>forEach\<close> visits them in
  that order), with \<^verbatim>\<open>set\<close> as \<^const>\<open>AList.update\<close> and \<^verbatim>\<open>delete\<close> as
  \<^const>\<open>AList.delete\<close>; \<^verbatim>\<open>size\<close> is the length. They hold references: \<open>sockets\<close>
  is the store of transport objects, \<open>timers\<close> the runtime's table of running intervals,
  each with the \<^verbatim>\<open>nodeId\<close> and transport its callback closes over, and \<open>nextTimer\<close>
  the handle the next \<^verbatim>\<open>setInterval\<close> returns. \<open>events\<close> and
  \<open>calls\<close> record what was emitted and what was called on transports, oldest first;
  \<open>netErrorListeners\<close> is the number of listeners registered for \<^verbatim>\<open>error\<close>.
\<close>

record 'p NetworkManager =
  config :: NetworkConfig
  connections :: "(string \<times> ws_ref) list"
  heartbeatIntervals :: "(string \<times> timer_ref) list"
  sockets :: "ws_ref \<Rightarrow> WebSocket"
  timers :: "(timer_ref \<times> string \<times> ws_ref) list"
  nextTimer :: timer_ref
  events :: "'p net_event list"
  calls :: "ws_call list"
  netErrorListeners :: nat

text \<open>The object \<^verbatim>\<open>getNetworkStats\<close> returns; its field \<^verbatim>\<open>maxConnections\<close>
  is \<open>maxConnectionsStat\<close> here.\<close>

record NetworkStats =
  connectedNodes :: nat
  maxConnectionsStat :: int
  activeConnections :: "string list"

text \<open>\<^verbatim>\<open>emit\<close> on the NetworkManager, for an event other than \<^verbatim>\<open>error\<close>:
  recorded like the PrivacyManager's.\<close>

definition emitN :: "'p net_event \<Rightarrow> 'p NetworkManager \<Rightarrow> 'p NetworkManager" where
  "emitN e s = s\<lparr>events := events s @ [e]\<rparr>"

text \<open>\<^verbatim>\<open>this.emit('error', ...)\<close>. With no listener for \<^verbatim>\<open>error\<close> the emitter
  throws and delivers nothing: the \<^verbatim>\<open>Error\<close> object itself when that is the
  payload (the server's handler), \<^verbatim>\<open>ERR_UNHANDLED_ERROR\<close> when the payload is
  another object (the three other places). \<open>Some\<close> is what is thrown.\<close>

fun unheard :: "'p net_event \<Rightarrow> js_error" where
  "unheard (ServerError e) = e"
| "unheard _ = UnhandledError"

definition emitN_error ::
  "'p net_event \<Rightarrow> 'p NetworkManager \<Rightarrow> js_error option \<times> 'p NetworkManager" where
  "emitN_error e s =
     (if netErrorListeners s = 0 then (Some (unheard e), s) else (None, emitN e s))"

definition NetworkManager_new :: "NetworkConfig \<Rightarrow> (ws_ref \<Rightarrow> WebSocket) \<Rightarrow> 'p NetworkManager" where
  "NetworkManager_new cfg heap =
     \<lparr>config = cfg, connections = [], heartbeatIntervals = [], sockets = heap, timers = [],
      nextTimer = 0, events = [], calls = [], netErrorListeners = 0\<rparr>"

section \<open>NetworkManager: connections\<close>

text \<open>\<^verbatim>\<open>ws.close(code, reason)\<close>: the call is recorded, and a transport that is not
  closed yet is closing from then on.\<close>

definition ws_close ::
  "ws_ref \<Rightarrow> (nat \<times> string) option \<Rightarrow> 'p NetworkManager \<Rightarrow> 'p NetworkManager" where
  "ws_close ws why s =
     s\<lparr>sockets := (sockets s)
          (ws := (sockets s ws)\<lparr>readyState :=
                   (if readyState (sockets s ws) = CLOSED then CLOSED else CLOSING)\<rparr>),
       calls := calls s @ [Close ws why]\<rparr>"

text \<open>\<^verbatim>\<open>setupHeartbeat\<close>: \<^verbatim>\<open>setInterval\<close> starts a new timer, and the map
  remembers it under the node id.\<close>

definition setupHeartbeat :: "string \<Rightarrow> ws_ref \<Rightarrow> 'p NetworkManager \<Rightarrow> 'p NetworkManager" where
  "setupHeartbeat nodeId ws s =
     s\<lparr>timers := timers s @ [(nextTimer s, nodeId, ws)],
       nextTimer := Suc (nextTimer s),
       heartbeatIntervals := AList.update nodeId (nextTimer s) (heartbeatIntervals s)\<rparr>"

definition handleDisconnection :: "string \<Rightarrow> 'p NetworkManager \<Rightarrow> 'p NetworkManager" where
  "handleDisconnection nodeId s =
     (let s1 = (case map_of (heartbeatIntervals s) nodeId of
                  None \<Rightarrow> s
                | Some interval \<Rightarrow>
                    s\<lparr>timers := filter (\<lambda>t. fst t \<noteq> interval) (timers s),
                      heartbeatIntervals := AList.delete nodeId (heartbeatIntervals s)\<rparr>)
      in emitN (NodeDisconnected nodeId)
           (s1\<lparr>connections := AList.delete nodeId (connections s1)\<rparr>))"

text \<open>\<^verbatim>\<open>handleConnection\<close>. The three \<^verbatim>\<open>ws.on\<close> registrations change nothing
  in the state; the inputs \<open>WsMessage\<close>, \<open>WsClose\<close> and \<open>WsError\<close> below are their
  callbacks.\<close>

definition handleConnection :: "string \<Rightarrow> ws_ref \<Rightarrow> 'p NetworkManager \<Rightarrow> 'p NetworkManager" where
  "handleConnection nodeId ws s =
     (if maxConnections (config s) \<le> int (length (connections s))
      then ws_close ws (Some (1013, ''Maximum connections reached'')) s
      else emitN (NodeConnected nodeId)
             (setupHeartbeat nodeId ws
                (s\<lparr>connections := AList.update nodeId ws (connections s)\<rparr>)))"

text \<open>One tick of a running interval (the callback in \<^verbatim>\<open>setupHeartbeat\<close>); a timer
  that was cleared does not tick.\<close>

definition heartbeatTick :: "timer_ref \<Rightarrow> 'p NetworkManager \<Rightarrow> 'p NetworkManager" where
  "heartbeatTick interval s =
     (case map_of (timers s) interval of
        None \<Rightarrow> s
      | Some (nodeId, ws) \<Rightarrow>
          if readyState (sockets s ws) = OPEN then s\<lparr>calls := calls s @ [Ping ws]\<rparr>
          else handleDisconnection nodeId s)"

section \<open>NetworkManager: messages\<close>

text \<open>\<^verbatim>\<open>validateMessage\<close> returns the value of a chain of \<^verbatim>\<open>&&\<close>, and the caller
  tests it with \<^verbatim>\<open>!\<close>: what counts is whether every operand is truthy. A string is
  truthy when it is not empty, a number when it is not 0; \<open>now\<close> is
  \<^verbatim>\<open>Date.now()\<close>, in milliseconds.\<close>

definition validateMessage :: "real \<Rightarrow> 'p Message \<Rightarrow> bool" where
  "validateMessage now message \<longleftrightarrow>
     msg_id message \<noteq> [] \<and>
     msg_type message \<noteq> [] \<and>
     sender message \<noteq> [] \<and>
     recipient message \<noteq> [] \<and>
     (case timestamp message of
        None \<Rightarrow> False
      | Some t \<Rightarrow> t \<noteq> 0 \<and> t \<le> now)"

definition handleResourceRequest :: "'p Message \<Rightarrow> 'p NetworkManager \<Rightarrow> 'p NetworkManager" where
  "handleResourceRequest message s = emitN (ResourceRequest message) s"

definition handleDataShare :: "'p Message \<Rightarrow> 'p NetworkManager \<Rightarrow> 'p NetworkManager" where
  "handleDataShare message s = emitN (DataShare message) s"

definition handlePatternUpdate :: "'p Message \<Rightarrow> 'p NetworkManager \<Rightarrow> 'p NetworkManager" where
  "handlePatternUpdate message s = emitN (PatternUpdate message) s"

definition handleConsensusRequest :: "'p Message \<Rightarrow> 'p NetworkManager \<Rightarrow> 'p NetworkManager" where
  "handleConsensusRequest message s = emitN (ConsensusRequest message) s"

definition handleNodeDiscovery :: "'p Message \<Rightarrow> 'p NetworkManager \<Rightarrow> 'p NetworkManager" where
  "handleNodeDiscovery message s = emitN (NodeDiscovery message) s"

text \<open>The \<^verbatim>\<open>switch\<close> of \<^verbatim>\<open>handleMessage\<close>, its five cases in the source's order
  and its \<^verbatim>\<open>default\<close>.\<close>

definition dispatch :: "'p Message \<Rightarrow> 'p NetworkManager \<Rightarrow> 'p NetworkManager" where
  "dispatch message s =
     (if msg_type message = MessageType_value RESOURCE_REQUEST then handleResourceRequest message s
      else if msg_type message = MessageType_value DATA_SHARE then handleDataShare message s
      else if msg_type message = MessageType_value PATTERN_UPDATE then handlePatternUpdate message s
      else if msg_type message = MessageType_value CONSENSUS_REQUEST
        then handleConsensusRequest message s
      else if msg_type message = MessageType_value NODE_DISCOVERY then handleNodeDiscovery message s
      else emitN (UnknownMessageType message) s)"

text \<open>
  \<^verbatim>\<open>handleMessage\<close>. Four ways lead to the \<^verbatim>\<open>catch\<close> branch:
  \<^verbatim>\<open>JSON.parse\<close> throws; it delivers \<^verbatim>\<open>null\<close>, and reading
  \<^verbatim>\<open>message.id\<close> is a \<^verbatim>\<open>TypeError\<close>; it delivers a value without the
  fields, which fails the validation like a message that does. The branch emits
  \<^verbatim>\<open>error\<close> outside the \<^verbatim>\<open>try\<close>; \<open>Some\<close> in the result is what leaves the
  callback when the emitter throws.
\<close>

definition handleMessage ::
  "('p frame_value) library \<Rightarrow> real \<Rightarrow> string \<Rightarrow> string \<Rightarrow> 'p NetworkManager
     \<Rightarrow> js_error option \<times> 'p NetworkManager" where
  "handleMessage L now nodeId raw s =
     (case JSON_parse L raw of
        None \<Rightarrow> emitN_error (InboundError nodeId LibraryError raw) s
      | Some JsonNull \<Rightarrow> emitN_error (InboundError nodeId TypeError raw) s
      | Some JsonOther \<Rightarrow>
          emitN_error (InboundError nodeId (Error ''Invalid message format'') raw) s
      | Some (JsonObject message) \<Rightarrow>
          if \<not> validateMessage now message
          then emitN_error (InboundError nodeId (Error ''Invalid message format'') raw) s
          else (None, emitN (MessageReceived nodeId message) (dispatch message s)))"

text \<open>The \<^verbatim>\<open>catch\<close> branch of \<^verbatim>\<open>sendMessage\<close>:
  \<^verbatim>\<open>this.emit('error', { message, error }); return false;\<close>. The emit is outside
  the \<^verbatim>\<open>try\<close>, so what the emitter throws rejects the promise (\<open>Inl\<close>).\<close>

definition send_failed ::
  "'p Message \<Rightarrow> js_error \<Rightarrow> 'p NetworkManager \<Rightarrow> (js_error + bool) \<times> 'p NetworkManager" where
  "send_failed message e s =
     (case emitN_error (SendError message e) s of
        (Some thrown, s') \<Rightarrow> (Inl thrown, s')
      | (None, s') \<Rightarrow> (Inr False, s'))"

text \<open>\<^verbatim>\<open>sendMessage\<close>: the answer (\<open>Inr\<close>) or the rejection of the promise
  (\<open>Inl\<close>), and the manager after the call.\<close>

definition sendMessage ::
  "('p frame_value) library \<Rightarrow> 'p Message \<Rightarrow> 'p NetworkManager
     \<Rightarrow> (js_error + bool) \<times> 'p NetworkManager" where
  "sendMessage L message s =
     (case map_of (connections s) (recipient message) of
        None \<Rightarrow> (Inr False, s)
      | Some connection \<Rightarrow>
          if readyState (sockets s connection) \<noteq> OPEN then (Inr False, s)
          else (case JSON_stringify L (JsonObject message) of
                  None \<Rightarrow> send_failed message LibraryError s
                | Some frame \<Rightarrow>
                    if sendThrows (sockets s connection)
                    then send_failed message TransportError s
                    else (Inr True, emitN (MessageSent message)
                                      (s\<lparr>calls := calls s @ [Send connection frame]\<rparr>))))"

text \<open>\<^verbatim>\<open>broadcast\<close> has no \<^verbatim>\<open>try\<close>: a throw leaves the loop, after the sends
  already made, and \<^verbatim>\<open>messageBroadcast\<close> is not emitted.\<close>

fun broadcast_each ::
  "('p frame_value) library \<Rightarrow> 'p Message \<Rightarrow> (string \<times> ws_ref) list \<Rightarrow> 'p NetworkManager
     \<Rightarrow> js_error option \<times> 'p NetworkManager" where
  "broadcast_each L message [] s = (None, s)"
| "broadcast_each L message ((nodeId, connection) # rest) s =
     (if readyState (sockets s connection) = OPEN
      then (case JSON_stringify L (JsonObject (message\<lparr>recipient := nodeId\<rparr>)) of
              None \<Rightarrow> (Some LibraryError, s)
            | Some frame \<Rightarrow>
                if sendThrows (sockets s connection) then (Some TransportError, s)
                else broadcast_each L message rest (s\<lparr>calls := calls s @ [Send connection frame]\<rparr>))
      else broadcast_each L message rest s)"

definition broadcast ::
  "('p frame_value) library \<Rightarrow> 'p Message \<Rightarrow> 'p NetworkManager \<Rightarrow> js_error option \<times> 'p NetworkManager" where
  "broadcast L message s =
     (case broadcast_each L message (connections s) s of
        (Some e, s') \<Rightarrow> (Some e, s')
      | (None, s') \<Rightarrow> (None, emitN (MessageBroadcast message) s'))"

text \<open>\<^verbatim>\<open>disconnect\<close> visits every entry the map had; the callback of
  \<^verbatim>\<open>server.close\<close> runs later and is the input \<open>ServerCloseCallback\<close>.\<close>

definition disconnect :: "'p NetworkManager \<Rightarrow> 'p NetworkManager" where
  "disconnect s =
     foldl (\<lambda>s' (nodeId, connection). handleDisconnection nodeId (ws_close connection None s'))
       s (connections s)"

definition getNetworkStats :: "'p NetworkManager \<Rightarrow> NetworkStats" where
  "getNetworkStats s =
     \<lparr>connectedNodes = length (connections s),
      maxConnectionsStat = maxConnections (config s),
      activeConnections = map fst (connections s)\<rparr>"

section \<open>NetworkManager: reachable states\<close>

text \<open>
  Everything that can run on a manager: the callbacks the constructor and
  \<^verbatim>\<open>handleConnection\<close> register (a new connection with the id
  \<^verbatim>\<open>generateNodeId\<close> drew for it, a frame, a close, an error), a heartbeat tick, the
  three public methods, the host adding or removing a listener for \<^verbatim>\<open>error\<close>, and
  the transport changing the state of one of its objects. When something is thrown out of
  a callback or a method, the manager stays as the throw left it.
\<close>

datatype 'p net_input =
    Connection string ws_ref
  | WsMessage string string real
  | WsClose string
  | WsError string js_error
  | ServerFault js_error
  | HeartbeatTick timer_ref
  | CallSendMessage "'p Message"
  | CallBroadcast "'p Message"
  | CallDisconnect
  | ServerCloseCallback
  | OnError
  | OffError
  | TransportChange ws_ref WebSocket

fun exec :: "('p frame_value) library \<Rightarrow> 'p net_input \<Rightarrow> 'p NetworkManager \<Rightarrow> 'p NetworkManager" where
  "exec L (Connection nodeId ws) s = handleConnection nodeId ws s"
| "exec L (WsMessage nodeId raw now) s = snd (handleMessage L now nodeId raw s)"
| "exec L (WsClose nodeId) s = handleDisconnection nodeId s"
| "exec L (WsError nodeId e) s = snd (emitN_error (ConnectionError nodeId e) s)"
| "exec L (ServerFault e) s = snd (emitN_error (ServerError e) s)"
| "exec L (HeartbeatTick interval) s = heartbeatTick interval s"
| "exec L (CallSendMessage message) s = snd (sendMessage L message s)"
| "exec L (CallBroadcast message) s = snd (broadcast L message s)"
| "exec L CallDisconnect s = disconnect s"
| "exec L ServerCloseCallback s = emitN ServerClosed s"
| "exec L OnError s = s\<lparr>netErrorListeners := Suc (netErrorListeners s)\<rparr>"
| "exec L OffError s = s\<lparr>netErrorListeners := netErrorListeners s - 1\<rparr>"
| "exec L (TransportChange ws state) s = s\<lparr>sockets := (sockets s)(ws := state)\<rparr>"

inductive reachable ::
  "('p frame_value) library \<Rightarrow> NetworkConfig \<Rightarrow> 'p NetworkManager \<Rightarrow> bool"
  for L :: "('p frame_value) library" and cfg :: NetworkConfig where
  init: "reachable L cfg (NetworkManager_new cfg heap)"
| step: "reachable L cfg s \<Longrightarrow> reachable L cfg (exec L i s)"

section \<open>Notions the statements use\<close>

text \<open>The consent set of a node for a data type: the registry's entry under their key,
  empty when there is none.\<close>

definition consentSet :: "PrivacyManager \<Rightarrow> string \<Rightarrow> string \<Rightarrow> string fset" where
  "consentSet s node dt =
     (case consentRegistry s (consentKey node dt) of None \<Rightarrow> {||} | Some consents \<Rightarrow> consents)"

text \<open>
  The contract of AES-256-GCM that the statements about encryption rest on.
  \<^item> \<open>gcm_roundtrip\<close>: with a key of 32 bytes and a nonce of 16, encryption does not throw,
    and decryption under the same key and nonce, given the tag, returns the plaintext.
  \<^item> \<open>gcm_authentic\<close>: the tag is a function of key, nonce and ciphertext, and
    \<^verbatim>\<open>final\<close> compares it with the tag that was set; another tag of the same length
    is refused.
\<close>

definition gcm_roundtrip :: "'v library \<Rightarrow> bool" where
  "gcm_roundtrip L \<longleftrightarrow>
     (\<forall>key nonce pt. length key = 32 \<and> length nonce = 16 \<longrightarrow>
        (\<exists>ct t. gcm_encrypt L key nonce pt = Some (ct, t) \<and>
                gcm_decrypt L key nonce t ct = Some pt))"



text \<open>The table has as many entries as the configuration allows, at most, under keys
  that differ.\<close>

definition within_capacity :: "'p NetworkManager \<Rightarrow> bool" where
  "within_capacity s \<longleftrightarrow>
     distinct (map fst (connections s)) \<and>
     int (length (connections s)) \<le> maxConnections (config s)"

section \<open>Example data\<close>

text \<open>The scenario of the specification: a policy for \<open>loc\<close>, trust 0.6 for node \<open>B\<close>,
  and the consent of \<open>B\<close> for \<open>loc\<close>, on a manager nobody listens to; and the same
  manager with one listener for \<^verbatim>\<open>error\<close>.\<close>

definition loc_policy :: PrivacyPolicy where
  "loc_policy =
     \<lparr>dataType = ''loc'', allowedOperations = Some [''read''], retentionPeriod = 3600,
      sharingPolicy = \<lparr>allowedNodes = [''B''], requireConsent = True, minimumTrust = 1/2\<rparr>\<rparr>"

definition loc_manager :: PrivacyManager where
  "loc_manager =
     \<lparr>policies = [''loc'' \<mapsto> loc_policy], encryptionKey = replicate 32 0,
      trustScores = [''B'' \<mapsto> 3/5],
      consentRegistry = [''B:loc'' \<mapsto> {|''B''|}], emitted = [], errorListeners = 0\<rparr>"


definition open_policy :: PrivacyPolicy where
  "open_policy = loc_policy\<lparr>allowedOperations := Some []\<rparr>"

text \<open>A stand-in for the library, small enough to evaluate: values are their own JSON
  text, the cipher inverts bits 1, 3, 4 and 6 of every byte, and the tag is 16 copies of
  the sum of key, nonce and ciphertext.\<close>

definition toy_tag :: "byte list \<Rightarrow> byte list \<Rightarrow> byte list \<Rightarrow> byte list" where
  "toy_tag key nonce ct = replicate 16 (foldr (+) (key @ nonce @ ct) 0)"

definition toy_library :: "string library" where
  "toy_library =
     \<lparr>JSON_stringify = (\<lambda>v. Some v),
      JSON_parse = (\<lambda>str. Some str),
      gcm_encrypt = (\<lambda>key nonce pt.
         let ct = map (\<lambda>b. b XOR 90) pt in Some (ct, toy_tag key nonce ct)),
      gcm_decrypt = (\<lambda>key nonce t ct.
         if t = toy_tag key nonce ct then Some (map (\<lambda>b. b XOR 90) ct) else None)\<rparr>"

definition sealed_location :: EncryptedData where
  "sealed_location =
     the (projr (fst (encryptData toy_library (replicate 16 7) ''[51,-1]'' ''loc'' loc_manager)))"

text \<open>One message, its frame, and a codec that knows this frame only.\<close>

definition example_message :: "string Message" where
  "example_message =
     \<lparr>msg_id = ''m1'', msg_type = ''RESOURCE_RESPONSE'', sender = ''alice'', recipient = ''n1'',
      payload = ''cpu'', timestamp = Some 1700000000000, signature = None\<rparr>"

definition example_frame :: string where
  "example_frame = ''{\"id\":\"m1\",\"type\":\"RESOURCE_RESPONSE\",\"sender\":\"alice\",\"recipient\":\"n1\",\"payload\":\"cpu\",\"timestamp\":1700000000000}''"

definition example_codec :: "(string frame_value) library" where
  "example_codec =
     \<lparr>JSON_stringify = (\<lambda>v. if v = JsonObject example_message then Some example_frame else None),
      JSON_parse = (\<lambda>raw. if raw = example_frame then Some (JsonObject example_message)
                          else None),
      gcm_encrypt = (\<lambda>key nonce pt. None),
      gcm_decrypt = (\<lambda>key nonce t ct. None)\<rparr>"

definition example_config :: NetworkConfig where
  "example_config = \<lparr>port = 8080, maxConnections = 1, discoveryInterval = 5000,
                      heartbeatInterval = 30000\<rparr>"

definition negative_config :: NetworkConfig where
  "negative_config = example_config\<lparr>maxConnections := - 1\<rparr>"

definition open_sockets :: "ws_ref \<Rightarrow> WebSocket" where
  "open_sockets = (\<lambda>ws. \<lparr>readyState = OPEN, sendThrows = False\<rparr>)"


definition one_peer :: "string NetworkManager" where
  "one_peer = exec example_codec (Connection ''n1'' 1) (NetworkManager_new example_config open_sockets)"



section \<open>Facts about the encodings\<close>

lemma hex_value_hex_digit: "n < 16 \<Longrightarrow> hex_value (hex_digit n) = Some n"
proof -
  assume "n < 16"
  then have "n \<in> {0, 1, 2, 3, 4, 5, 6, 7, 8, 9, 10, 11, 12, 13, 14, 15}"
    by simp arith
  then show ?thesis
    by (auto simp: hex_digit_def hex_value_def)
qed

lemma Buffer_from_hex_toString_hex: "Buffer_from_hex (toString_hex bs) = bs"
proof (induction bs)
  case Nil
  show ?case by (simp add: toString_hex_def)
next
  case (Cons b bs)
  have "unat b div 16 < 16"
    using unsigned_less [of b, where ?'a = nat] by simp
  then show ?case
    using Cons by (simp add: toString_hex_def hex_value_hex_digit)
qed

lemma even_length_toString_hex: "even (length (toString_hex bs))"
  by (induction bs) (simp_all add: toString_hex_def)

lemma update_input_hex_toString_hex: "update_input_hex (toString_hex bs) = Some bs"
  by (simp add: update_input_hex_def even_length_toString_hex Buffer_from_hex_toString_hex)

lemma toString_hex_inject: "toString_hex a = toString_hex b \<longleftrightarrow> a = b"
  by (metis Buffer_from_hex_toString_hex)

lemma utf8_decode_encode: "utf8_decode (utf8_encode str) = str"
  by (induction str) (simp_all add: utf8_encode_def utf8_decode_def unat_of_nat)



section \<open>Facts about the example data\<close>

lemma gcm_roundtrip_toy: "gcm_roundtrip toy_library"
  by (simp add: gcm_roundtrip_def toy_library_def Let_def comp_def xor.assoc)


lemma encrypt_location:
  "encryptData toy_library (replicate 16 7) ''[51,-1]'' ''loc'' loc_manager
     = (Inr (Some sealed_location), loc_manager)"
  by (simp add: sealed_location_def encryptData_def loc_manager_def toy_library_def Let_def)

lemma one_peer_eq:
  "one_peer =
     \<lparr>config = example_config, connections = [(''n1'', 1)], heartbeatIntervals = [(''n1'', 0)],
      sockets = open_sockets, timers = [(0, ''n1'', 1)], nextTimer = Suc 0,
      events = [NodeConnected ''n1''], calls = [], netErrorListeners = 0\<rparr>"
  by (simp add: one_peer_def handleConnection_def NetworkManager_new_def example_config_def
        setupHeartbeat_def emitN_def)

lemma reachable_one_peer: "reachable example_codec example_config one_peer"
  unfolding one_peer_def by (rule reachable.step) (rule reachable.init)

section \<open>PrivacyManager: permission\<close>

lemma fcard_pos_iff: "0 < fcard A \<longleftrightarrow> A \<noteq> {||}"
  by (metis fcard_fempty fcard_seteq fempty_fsubsetI gr_zeroI less_nat_zero_code linorder_not_le)

lemma trustScoreOf_eq:
  "trustScoreOf s n = (case trustScores s n of None \<Rightarrow> 0 | Some v \<Rightarrow> v)"
  by (simp add: trustScoreOf_def split: option.splits)

text \<open>
  Claim C1. \<^verbatim>\<open>checkPermission(nodeId, dataType, operation)\<close> returns true exactly when
  all five hold: a policy is stored for the data type; the operation is among its allowed
  operations; the node is among the allowed nodes of its sharing policy; the node's trust
  score, 0 when it has no entry, is at least the minimum trust; and consent is not required
  or the registry's set under the key of this node and data type is not empty. The call
  leaves the manager as it was: no store changes and nothing is emitted.
\<close>

theorem checkPermission_iff:
  "(fst (checkPermission nodeId dt operation s) = Inr True \<longleftrightarrow>
      (\<exists>policy ops.
         policies s dt = Some policy \<and>
         allowedOperations policy = Some ops \<and> operation \<in> set ops \<and>
         nodeId \<in> set (allowedNodes (sharingPolicy policy)) \<and>
         minimumTrust (sharingPolicy policy)
           \<le> (case trustScores s nodeId of None \<Rightarrow> 0 | Some v \<Rightarrow> v) \<and>
         (\<not> requireConsent (sharingPolicy policy) \<or>
          (\<exists>consents. consentRegistry s (consentKey nodeId dt) = Some consents \<and>
                      consents \<noteq> {||})))) \<and>
   snd (checkPermission nodeId dt operation s) = s"
  by (auto simp: checkPermission_def trustScoreOf_eq checkConsent_def fcard_pos_iff Let_def
           split: option.splits)

theorem checkPermission_iff_witness:
  "fst (checkPermission ''B'' ''loc'' ''read'' loc_manager) = Inr True \<and>
   fst (checkPermission ''B'' ''loc'' ''write'' loc_manager) \<noteq> Inr True \<and>
   fst (checkPermission ''B'' ''loc'' ''read'' (loc_manager\<lparr>trustScores := [''B'' \<mapsto> 2/5]\<rparr>))
     \<noteq> Inr True \<and>
   snd (checkPermission ''B'' ''loc'' ''read'' loc_manager) = loc_manager"
  using checkPermission_iff [of "''B''" "''loc''" "''read''" loc_manager]
        checkPermission_iff [of "''B''" "''loc''" "''write''" loc_manager]
        checkPermission_iff [of "''B''" "''loc''" "''read''"
          "loc_manager\<lparr>trustScores := [''B'' \<mapsto> 2/5]\<rparr>"]
  by (simp add: loc_manager_def loc_policy_def consentKey_def)

section \<open>PrivacyManager: the encryption round trip\<close>

lemma encryptData_Some:
  assumes "encryptData L rnd v dt s = (Inr (Some env), s')"
  shows "\<exists>policy jsonData ct t.
           policies s dt = Some policy \<and> JSON_stringify L v = Some jsonData \<and>
           gcm_encrypt L (encryptionKey s) rnd (utf8_encode jsonData) = Some (ct, t) \<and>
           env = \<lparr>data = toString_hex ct, iv = toString_hex rnd, tag = toString_hex t\<rparr> \<and>
           s' = s"
  using assms
  by (auto simp: encryptData_def error_then_null_def emit_error_def
        split: option.splits if_splits)

text \<open>
  Claim C2. For a value that JSON serializes (\<^verbatim>\<open>JSON.stringify\<close> gives a text that
  \<^verbatim>\<open>JSON.parse\<close> reads back as the value) and a data type with a policy,
  \<^verbatim>\<open>encryptData\<close> returns an envelope and \<^verbatim>\<open>decryptData\<close> of that envelope
  returns the value; neither call throws or changes the manager. The key is the manager's
  32 bytes,
  the nonce the 16 bytes drawn, and the cipher is assumed to meet the round-trip contract
  of AES-256-GCM.
\<close>

theorem decrypt_encrypt_roundtrip:
  assumes lib: "gcm_roundtrip L"
    and key: "length (encryptionKey s) = 32"
    and rnd: "length rnd = 16"
    and pol: "policies s dt = Some policy"
    and ser: "JSON_stringify L v = Some jsonData" "JSON_parse L jsonData = Some v"
  shows "\<exists>env. encryptData L rnd v dt s = (Inr (Some env), s) \<and>
               decryptData L env s = (Inr (Some v), s)"
proof -
  from lib key rnd obtain ct t where
    enc: "gcm_encrypt L (encryptionKey s) rnd (utf8_encode jsonData) = Some (ct, t)" and
    dec: "gcm_decrypt L (encryptionKey s) rnd t ct = Some (utf8_encode jsonData)"
    unfolding gcm_roundtrip_def by blast
  let ?env = "\<lparr>data = toString_hex ct, iv = toString_hex rnd, tag = toString_hex t\<rparr>"
  have "encryptData L rnd v dt s = (Inr (Some ?env), s)"
    by (simp add: encryptData_def pol ser enc)
  moreover have "decryptData L ?env s = (Inr (Some v), s)"
    by (simp add: decryptData_def update_input_hex_toString_hex Buffer_from_hex_toString_hex
          dec utf8_decode_encode ser)
  ultimately show ?thesis by blast
qed

theorem decrypt_encrypt_roundtrip_witness:
  "\<exists>env. encryptData toy_library (replicate 16 7) ''[51,-1]'' ''loc'' loc_manager
            = (Inr (Some env), loc_manager) \<and>
         decryptData toy_library env loc_manager = (Inr (Some ''[51,-1]''), loc_manager)"
  using decrypt_encrypt_roundtrip [of toy_library loc_manager "replicate 16 7" "''loc''"
          loc_policy "''[51,-1]''" "''[51,-1]''", OF gcm_roundtrip_toy]
  by (simp add: loc_manager_def toy_library_def)






section \<open>NetworkManager: validation\<close>

text \<open>
  Claim C4, amended. \<^verbatim>\<open>validateMessage\<close> accepts a message exactly when
  \<^verbatim>\<open>id\<close>, \<^verbatim>\<open>type\<close>, \<^verbatim>\<open>sender\<close> and \<^verbatim>\<open>recipient\<close> are not empty and
  \<^verbatim>\<open>timestamp\<close> is present, is not 0, and is at most the current time. A timestamp one
  second (1000 ms) in the future is rejected.
\<close>

theorem validateMessage_iff:
  "(validateMessage now message \<longleftrightarrow>
      msg_id message \<noteq> [] \<and> msg_type message \<noteq> [] \<and> sender message \<noteq> [] \<and>
      recipient message \<noteq> [] \<and>
      (\<exists>t. timestamp message = Some t \<and> t \<noteq> 0 \<and> t \<le> now)) \<and>
   (timestamp message = Some (now + 1000) \<longrightarrow> \<not> validateMessage now message)"
  by (auto simp: validateMessage_def split: option.splits)

theorem validateMessage_iff_witness:
  "validateMessage 1700000000001 example_message \<and>
   \<not> validateMessage 1699999999000 example_message"
  using validateMessage_iff [of 1700000000001 example_message]
        validateMessage_iff [of 1699999999000 example_message]
  by (simp add: example_message_def)

text \<open>The claim as written fails: a message whose four strings are not empty and whose
  timestamp is 0, not in the future, is rejected.\<close>

theorem validateMessage_rejects_zero_timestamp:
  "msg_id (example_message\<lparr>timestamp := Some 0\<rparr>) \<noteq> [] \<and>
   msg_type (example_message\<lparr>timestamp := Some 0\<rparr>) \<noteq> [] \<and>
   sender (example_message\<lparr>timestamp := Some 0\<rparr>) \<noteq> [] \<and>
   recipient (example_message\<lparr>timestamp := Some 0\<rparr>) \<noteq> [] \<and>
   timestamp (example_message\<lparr>timestamp := Some 0\<rparr>) = Some 0 \<and>
   (0 :: real) \<le> 1700000000001 \<and>
   \<not> validateMessage 1700000000001 (example_message\<lparr>timestamp := Some 0\<rparr>)"
  by (simp add: validateMessage_def example_message_def)

section \<open>PrivacyManager: setting a policy\<close>

text \<open>
  Claim C5, amended. \<^verbatim>\<open>setPolicy(dataType, policy)\<close> throws, storing nothing and
  emitting nothing, exactly when \<^verbatim>\<open>policy.dataType\<close> is empty, or
  \<^verbatim>\<open>policy.allowedOperations\<close> is missing, or \<^verbatim>\<open>policy.retentionPeriod\<close> is at
  most 0. Otherwise it stores the policy under the \<^verbatim>\<open>dataType\<close> argument and emits
  \<^verbatim>\<open>policyUpdated\<close>, and does nothing else.
\<close>

theorem setPolicy_validation:
  "(isl (setPolicy dt policy s) \<longleftrightarrow>
      dataType policy = [] \<or> allowedOperations policy = None \<or> retentionPeriod policy \<le> 0) \<and>
   (dataType policy = [] \<or> allowedOperations policy = None \<longrightarrow>
      setPolicy dt policy s = Inl (Error ''Invalid policy: missing required fields'')) \<and>
   (dataType policy \<noteq> [] \<and> allowedOperations policy \<noteq> None \<and> retentionPeriod policy \<le> 0 \<longrightarrow>
      setPolicy dt policy s = Inl (Error ''Invalid policy: retention period must be positive'')) \<and>
   (dataType policy \<noteq> [] \<and> allowedOperations policy \<noteq> None \<and> 0 < retentionPeriod policy \<longrightarrow>
      setPolicy dt policy s =
        Inr (s\<lparr>policies := (policies s)(dt \<mapsto> policy),
               emitted := emitted s @ [PolicyUpdated dt policy]\<rparr>))"
  by (auto simp: setPolicy_def validatePolicy_def emit_def)

theorem setPolicy_validation_witness:
  "isl (setPolicy ''loc'' (loc_policy\<lparr>retentionPeriod := 0\<rparr>) loc_manager) \<and>
   isl (setPolicy ''loc'' (loc_policy\<lparr>allowedOperations := None\<rparr>) loc_manager) \<and>
   setPolicy ''gps'' loc_policy loc_manager =
     Inr (loc_manager\<lparr>policies := (policies loc_manager)(''gps'' \<mapsto> loc_policy),
                      emitted := emitted loc_manager @ [PolicyUpdated ''gps'' loc_policy]\<rparr>)"
  using setPolicy_validation [of "''loc''" "loc_policy\<lparr>retentionPeriod := 0\<rparr>" loc_manager]
        setPolicy_validation [of "''loc''" "loc_policy\<lparr>allowedOperations := None\<rparr>" loc_manager]
        setPolicy_validation [of "''gps''" loc_policy loc_manager]
  by (simp add: loc_policy_def)

text \<open>The claim as written fails: a policy whose list of allowed operations is empty is
  accepted, stored and announced.\<close>

theorem setPolicy_empty_operations_accepted:
  "allowedOperations open_policy = Some [] \<and>
   setPolicy ''loc'' open_policy (PrivacyManager_new (replicate 32 0)) =
     Inr ((PrivacyManager_new (replicate 32 0))
            \<lparr>policies := [''loc'' \<mapsto> open_policy],
             emitted := [PolicyUpdated ''loc'' open_policy]\<rparr>)"
  by (simp add: setPolicy_def validatePolicy_def emit_def open_policy_def loc_policy_def
        PrivacyManager_new_def)

section \<open>NetworkManager: the capacity bound\<close>

lemma length_update_le: "length (AList.update k v al) \<le> Suc (length al)"
  by (induction al) auto

lemma handleDisconnection_frame:
  "connections (handleDisconnection nodeId s) = AList.delete nodeId (connections s)"
  "config (handleDisconnection nodeId s) = config s"
  by (simp_all add: handleDisconnection_def emitN_def Let_def split: option.splits)

lemma ws_close_frame:
  "connections (ws_close ws why s) = connections s"
  "config (ws_close ws why s) = config s"
  by (simp_all add: ws_close_def)

lemma within_capacity_delete:
  "within_capacity s \<Longrightarrow> config s' = config s \<Longrightarrow>
   connections s' = AList.delete nodeId (connections s) \<Longrightarrow> within_capacity s'"
  using length_delete_le [of nodeId "connections s"]
  by (simp add: within_capacity_def distinct_delete)

lemma within_capacity_same:
  "within_capacity s \<Longrightarrow> config s' = config s \<Longrightarrow> connections s' = connections s \<Longrightarrow>
   within_capacity s'"
  by (simp add: within_capacity_def)

lemma handleDisconnection_capacity:
  "within_capacity s \<Longrightarrow> within_capacity (handleDisconnection nodeId s)"
  by (rule within_capacity_delete [where nodeId = nodeId]) (simp_all add: handleDisconnection_frame)

lemma handleConnection_capacity:
  assumes "within_capacity s"
  shows "within_capacity (handleConnection nodeId ws s)"
proof (cases "maxConnections (config s) \<le> int (length (connections s))")
  case True
  then show ?thesis
    using assms by (simp add: handleConnection_def within_capacity_def ws_close_frame)
next
  case False
  then have "int (length (AList.update nodeId ws (connections s))) \<le> maxConnections (config s)"
    using length_update_le [of nodeId ws "connections s"] by linarith
  with False assms show ?thesis
    by (simp add: handleConnection_def within_capacity_def setupHeartbeat_def emitN_def
          distinct_update)
qed

lemma broadcast_each_frame:
  "connections (snd (broadcast_each L message cs s)) = connections s \<and>
   config (snd (broadcast_each L message cs s)) = config s"
  by (induction cs arbitrary: s) (auto split: option.splits)

lemma broadcast_frame:
  "connections (snd (broadcast L message s)) = connections s"
  "config (snd (broadcast L message s)) = config s"
  using broadcast_each_frame [of L message "connections s" s]
  by (auto simp: broadcast_def emitN_def split: prod.splits option.splits)

lemma emitN_error_frame:
  "connections (snd (emitN_error e s)) = connections s"
  "config (snd (emitN_error e s)) = config s"
  "heartbeatIntervals (snd (emitN_error e s)) = heartbeatIntervals s"
  by (simp_all add: emitN_error_def emitN_def)

lemma send_failed_frame:
  "connections (snd (send_failed message e s)) = connections s"
  "config (snd (send_failed message e s)) = config s"
  "heartbeatIntervals (snd (send_failed message e s)) = heartbeatIntervals s"
  by (simp_all add: send_failed_def emitN_error_def emitN_def)

lemma sendMessage_frame:
  "connections (snd (sendMessage L message s)) = connections s"
  "config (snd (sendMessage L message s)) = config s"
  by (auto simp: sendMessage_def emitN_def send_failed_frame split: option.splits)

lemma dispatch_events: "\<exists>e. dispatch message s = emitN e s"
  by (auto simp: dispatch_def handleResourceRequest_def handleDataShare_def
        handlePatternUpdate_def handleConsensusRequest_def handleNodeDiscovery_def)

lemma dispatch_frame:
  "connections (dispatch message s) = connections s"
  "config (dispatch message s) = config s"
  using dispatch_events [of message s] by (auto simp: emitN_def)

lemma handleMessage_frame:
  "connections (snd (handleMessage L now nodeId raw s)) = connections s"
  "config (snd (handleMessage L now nodeId raw s)) = config s"
  by (auto simp: handleMessage_def emitN_def emitN_error_frame dispatch_frame
        split: option.splits frame_value.splits)

lemma disconnect_loop_capacity:
  "within_capacity s \<Longrightarrow>
   within_capacity
     (foldl (\<lambda>s' (nodeId, connection). handleDisconnection nodeId (ws_close connection None s'))
        s cs)"
proof (induction cs arbitrary: s)
  case Nil
  then show ?case by simp
next
  case (Cons c cs)
  obtain nodeId connection where c: "c = (nodeId, connection)"
    by (cases c)
  have "within_capacity (ws_close connection None s)"
    using Cons.prems by (rule within_capacity_same) (simp_all add: ws_close_frame)
  then have "within_capacity (handleDisconnection nodeId (ws_close connection None s))"
    by (rule handleDisconnection_capacity)
  then show ?case
    using Cons.IH by (simp add: c)
qed

lemma exec_capacity:
  assumes "within_capacity s"
  shows "within_capacity (exec L i s)"
proof (cases i)
  case (Connection nodeId ws)
  then show ?thesis using assms by (simp add: handleConnection_capacity)
next
  case (WsMessage nodeId raw now)
  then show ?thesis
    using assms by (auto intro: within_capacity_same simp: handleMessage_frame)
next
  case (WsClose nodeId)
  then show ?thesis using assms by (simp add: handleDisconnection_capacity)
next
  case (WsError nodeId e)
  then show ?thesis
    using assms by (auto intro: within_capacity_same simp: emitN_error_frame)
next
  case (ServerFault e)
  then show ?thesis
    using assms by (auto intro: within_capacity_same simp: emitN_error_frame)
next
  case (HeartbeatTick interval)
  show ?thesis
  proof (cases "map_of (timers s) interval")
    case None
    then show ?thesis using assms by (simp add: HeartbeatTick heartbeatTick_def)
  next
    case (Some closure)
    obtain nodeId ws where "closure = (nodeId, ws)"
      by (cases closure)
    with Some have "exec L i s = s\<lparr>calls := calls s @ [Ping ws]\<rparr> \<or>
                    exec L i s = handleDisconnection nodeId s"
      by (simp add: HeartbeatTick heartbeatTick_def)
    then show ?thesis
    proof
      assume "exec L i s = s\<lparr>calls := calls s @ [Ping ws]\<rparr>"
      then show ?thesis using assms by (simp add: within_capacity_def)
    next
      assume "exec L i s = handleDisconnection nodeId s"
      then show ?thesis using assms by (simp add: handleDisconnection_capacity)
    qed
  qed
next
  case (CallSendMessage message)
  then show ?thesis
    using assms by (auto intro: within_capacity_same simp: sendMessage_frame)
next
  case (CallBroadcast message)
  then show ?thesis
    using assms by (auto intro: within_capacity_same simp: broadcast_frame)
next
  case CallDisconnect
  then show ?thesis using assms by (simp add: disconnect_def disconnect_loop_capacity)
next
  case ServerCloseCallback
  then show ?thesis using assms by (simp add: within_capacity_def emitN_def)
next
  case OnError
  then show ?thesis using assms by (simp add: within_capacity_def)
next
  case OffError
  then show ?thesis using assms by (simp add: within_capacity_def)
next
  case (TransportChange ws state)
  then show ?thesis using assms by (simp add: within_capacity_def)
qed

lemma exec_config: "config (exec L i s) = config s"
proof (cases i)
  case CallDisconnect
  have "config (foldl (\<lambda>s' (nodeId, connection).
                  handleDisconnection nodeId (ws_close connection None s')) s cs) = config s" for cs
    by (induction cs arbitrary: s) (auto simp: handleDisconnection_frame ws_close_frame)
  then show ?thesis by (simp add: CallDisconnect disconnect_def)
qed (auto simp: handleConnection_def ws_close_frame setupHeartbeat_def emitN_def
       handleMessage_frame handleDisconnection_frame heartbeatTick_def sendMessage_frame
       broadcast_frame emitN_error_frame split: option.splits)

lemma reachable_capacity:
  assumes "reachable L cfg s" and "0 \<le> maxConnections cfg"
  shows "config s = cfg \<and> within_capacity s"
  using assms
proof (induction rule: reachable.induct)
  case (init heap)
  then show ?case by (simp add: NetworkManager_new_def within_capacity_def)
next
  case (step s i)
  then show ?case by (simp add: exec_config exec_capacity)
qed

text \<open>
  Claim C6, amended. When the configured \<^verbatim>\<open>maxConnections\<close> is a whole number that is
  not negative, every reachable state has at most that many connections, under node ids
  that differ, so \<^verbatim>\<open>getNetworkStats().connectedNodes\<close> is at most
  \<^verbatim>\<open>maxConnections\<close>. In any state, a connection that arrives while the table holds
  \<^verbatim>\<open>maxConnections\<close> entries or more is closed with status 1013: the table and the
  heartbeat map stay as they were, no timer is started and no event is emitted.
\<close>

theorem capacity_bound:
  "(0 \<le> maxConnections cfg \<and> reachable L cfg s \<longrightarrow>
      distinct (activeConnections (getNetworkStats s)) \<and>
      maxConnectionsStat (getNetworkStats s) = maxConnections cfg \<and>
      int (connectedNodes (getNetworkStats s)) \<le> maxConnectionsStat (getNetworkStats s)) \<and>
   (maxConnections (config s') \<le> int (length (connections s')) \<longrightarrow>
      connections (handleConnection nodeId ws s') = connections s' \<and>
      heartbeatIntervals (handleConnection nodeId ws s') = heartbeatIntervals s' \<and>
      timers (handleConnection nodeId ws s') = timers s' \<and>
      events (handleConnection nodeId ws s') = events s' \<and>
      calls (handleConnection nodeId ws s')
        = calls s' @ [Close ws (Some (1013, ''Maximum connections reached''))])"
proof (intro conjI impI)
  assume a: "0 \<le> maxConnections cfg \<and> reachable L cfg s"
  then have c: "config s = cfg" and w: "within_capacity s"
    using reachable_capacity by blast+
  from w show "distinct (activeConnections (getNetworkStats s))"
    by (simp add: getNetworkStats_def within_capacity_def)
  from c show "maxConnectionsStat (getNetworkStats s) = maxConnections cfg"
    by (simp add: getNetworkStats_def)
  from w show "int (connectedNodes (getNetworkStats s)) \<le> maxConnectionsStat (getNetworkStats s)"
    by (simp add: getNetworkStats_def within_capacity_def)
qed (simp_all add: handleConnection_def ws_close_def)

theorem capacity_bound_witness:
  "connectedNodes (getNetworkStats (exec example_codec (Connection ''n2'' 2) one_peer)) = 1 \<and>
   maxConnectionsStat (getNetworkStats (exec example_codec (Connection ''n2'' 2) one_peer)) = 1 \<and>
   connections (handleConnection ''n2'' 2 one_peer) = connections one_peer \<and>
   heartbeatIntervals (handleConnection ''n2'' 2 one_peer) = heartbeatIntervals one_peer \<and>
   timers (handleConnection ''n2'' 2 one_peer) = timers one_peer \<and>
   events (handleConnection ''n2'' 2 one_peer) = events one_peer \<and>
   calls (handleConnection ''n2'' 2 one_peer)
     = calls one_peer @ [Close 2 (Some (1013, ''Maximum connections reached''))]"
proof -
  have "reachable example_codec example_config (exec example_codec (Connection ''n2'' 2) one_peer)"
    by (rule reachable.step) (rule reachable_one_peer)
  moreover have "0 \<le> maxConnections example_config"
    by (simp add: example_config_def)
  moreover have "maxConnections (config one_peer) \<le> int (length (connections one_peer))"
    by (simp add: one_peer_eq example_config_def)
  ultimately show ?thesis
    using capacity_bound [of example_config example_codec
            "exec example_codec (Connection ''n2'' 2) one_peer" one_peer "''n2''" 2]
    by (simp add: getNetworkStats_def one_peer_eq handleConnection_def ws_close_def
          example_config_def)
qed

text \<open>The claim as written fails: with \<^verbatim>\<open>maxConnections\<close> configured as -1 the
  manager starts with 0 connections, which is more.\<close>

theorem negative_capacity_exceeded:
  "reachable example_codec negative_config
     (NetworkManager_new negative_config open_sockets :: string NetworkManager) \<and>
   \<not> int (connectedNodes (getNetworkStats
            (NetworkManager_new negative_config open_sockets :: string NetworkManager)))
       \<le> maxConnectionsStat (getNetworkStats
            (NetworkManager_new negative_config open_sockets :: string NetworkManager))"
proof -
  have "reachable example_codec negative_config
          (NetworkManager_new negative_config open_sockets :: string NetworkManager)"
    by (rule reachable.init)
  then show ?thesis
    by (simp add: getNetworkStats_def NetworkManager_new_def negative_config_def)
qed

section \<open>NetworkManager: sending\<close>




section \<open>PrivacyManager: consent\<close>

lemma grantConsent_eq:
  "grantConsent g e d s =
     s\<lparr>consentRegistry := (consentRegistry s)(consentKey g d \<mapsto> finsert e (consentSet s g d)),
       emitted := emitted s @ [ConsentGranted g e d]\<rparr>"
  by (auto simp: grantConsent_def consentSet_def emit_def Let_def split: option.splits)

text \<open>
  Claim C8. If the grantor's consent set for the data type holds no grantee other than
  this one, \<^verbatim>\<open>grantConsent\<close> followed by \<^verbatim>\<open>revokeConsent\<close> for the same three
  names leaves \<^verbatim>\<open>checkConsent(grantor, dataType)\<close> false. A second
  \<^verbatim>\<open>grantConsent\<close> for the same three names only emits its event: the registry is
  the one after the first. \<^verbatim>\<open>revokeConsent\<close> of a grantee that is not in the set only
  emits its event.
\<close>

theorem grant_revoke_consent:
  "((\<forall>x. x |\<in>| consentSet s grantor dt \<longrightarrow> x = grantee) \<longrightarrow>
      \<not> checkConsent grantor dt
           (revokeConsent grantor grantee dt (grantConsent grantor grantee dt s))) \<and>
   grantConsent grantor grantee dt (grantConsent grantor grantee dt s) =
     emit (ConsentGranted grantor grantee dt) (grantConsent grantor grantee dt s) \<and>
   (grantee |\<notin>| consentSet s grantor dt \<longrightarrow>
      revokeConsent grantor grantee dt s = emit (ConsentRevoked grantor grantee dt) s)"
proof (intro conjI impI)
  assume only: "\<forall>x. x |\<in>| consentSet s grantor dt \<longrightarrow> x = grantee"
  then have "finsert grantee (consentSet s grantor dt) |-| {|grantee|} = {||}"
    by auto
  then show "\<not> checkConsent grantor dt
           (revokeConsent grantor grantee dt (grantConsent grantor grantee dt s))"
    by (simp add: checkConsent_def revokeConsent_def grantConsent_eq emit_def Let_def)
next
  show "grantConsent grantor grantee dt (grantConsent grantor grantee dt s) =
     emit (ConsentGranted grantor grantee dt) (grantConsent grantor grantee dt s)"
    by (simp add: grantConsent_def emit_def Let_def split: option.splits)
next
  assume "grantee |\<notin>| consentSet s grantor dt"
  then show "revokeConsent grantor grantee dt s = emit (ConsentRevoked grantor grantee dt) s"
    by (auto simp: revokeConsent_def consentSet_def emit_def Let_def map_upd_triv
          split: option.splits)
qed

theorem grant_revoke_consent_witness:
  "\<not> checkConsent ''A'' ''loc''
       (revokeConsent ''A'' ''C'' ''loc'' (grantConsent ''A'' ''C'' ''loc'' loc_manager)) \<and>
   \<not> checkConsent ''B'' ''loc''
       (revokeConsent ''B'' ''B'' ''loc'' (grantConsent ''B'' ''B'' ''loc'' loc_manager)) \<and>
   grantConsent ''A'' ''C'' ''loc'' (grantConsent ''A'' ''C'' ''loc'' loc_manager) =
     emit (ConsentGranted ''A'' ''C'' ''loc'') (grantConsent ''A'' ''C'' ''loc'' loc_manager) \<and>
   revokeConsent ''B'' ''C'' ''loc'' loc_manager = emit (ConsentRevoked ''B'' ''C'' ''loc'') loc_manager"
  using grant_revoke_consent [of loc_manager "''A''" "''loc''" "''C''"]
        grant_revoke_consent [of loc_manager "''B''" "''loc''" "''B''"]
        grant_revoke_consent [of loc_manager "''B''" "''loc''" "''C''"]
  by (simp add: consentSet_def consentKey_def loc_manager_def)

section \<open>PrivacyManager: the nonce\<close>

text \<open>
  Claim C9, amended. \<^verbatim>\<open>encryptData\<close> draws 16 bytes on every call and the envelope's
  \<^verbatim>\<open>iv\<close> is those bytes in hex. The \<^verbatim>\<open>iv\<close> values of two envelopes, the second
  made on the manager the first call left, differ exactly when the two draws differ.
\<close>

theorem iv_is_the_random_draw:
  assumes "encryptData L r1 v dt s = (Inr (Some e1), s1)"
    and "encryptData L r2 v dt s1 = (Inr (Some e2), s2)"
  shows "iv e1 = toString_hex r1 \<and> iv e2 = toString_hex r2 \<and> (iv e1 \<noteq> iv e2 \<longleftrightarrow> r1 \<noteq> r2)"
  using encryptData_Some [OF assms(1)] encryptData_Some [OF assms(2)]
  by (auto simp: toString_hex_inject)

theorem iv_is_the_random_draw_witness:
  "iv sealed_location = toString_hex (replicate 16 7) \<and>
   iv (the (projr (fst (encryptData toy_library (replicate 16 8) ''[51,-1]'' ''loc'' loc_manager))))
     \<noteq> iv sealed_location"
proof -
  have e2: "encryptData toy_library (replicate 16 8) ''[51,-1]'' ''loc'' loc_manager
     = (Inr (Some (the (projr (fst (encryptData toy_library (replicate 16 8) ''[51,-1]'' ''loc''
                          loc_manager))))),
        loc_manager)"
    by (simp add: encryptData_def loc_manager_def toy_library_def Let_def)
  show ?thesis
    using iv_is_the_random_draw [OF encrypt_location e2] by (simp add: toString_hex_inject)
qed

text \<open>The claim as written fails: two calls with the same data whose draws are the same
  16 bytes both succeed and give the same \<^verbatim>\<open>iv\<close>.\<close>

theorem repeated_draw_repeats_iv:
  "fst (encryptData toy_library (replicate 16 7) ''[51,-1]'' ''loc'' loc_manager)
     = Inr (Some sealed_location) \<and>
   fst (encryptData toy_library (replicate 16 7) ''[51,-1]'' ''loc''
          (snd (encryptData toy_library (replicate 16 7) ''[51,-1]'' ''loc'' loc_manager)))
     = Inr (Some sealed_location) \<and>
   iv (the (projr (fst (encryptData toy_library (replicate 16 7) ''[51,-1]'' ''loc'' loc_manager)))) =
   iv (the (projr (fst (encryptData toy_library (replicate 16 7) ''[51,-1]'' ''loc''
          (snd (encryptData toy_library (replicate 16 7) ''[51,-1]'' ''loc'' loc_manager))))))"
  by (simp add: encrypt_location)

section \<open>NetworkManager: dispatch\<close>

text \<open>
  Claim C10. For an inbound frame that parses to a message passing validation,
  \<^verbatim>\<open>handleMessage\<close> throws nothing, runs the dispatch, which emits one event, and then emits
  \<^verbatim>\<open>messageReceived\<close> with the peer id and the message, whatever the type. A message
  of type \<^verbatim>\<open>RESOURCE_RESPONSE\<close> meets no case of the dispatch: the event before
  \<^verbatim>\<open>messageReceived\<close> is \<^verbatim>\<open>unknownMessageType\<close>.
\<close>

theorem handleMessage_dispatch:
  "(JSON_parse L raw = Some (JsonObject message) \<and> validateMessage now message \<longrightarrow>
      handleMessage L now nodeId raw s
        = (None, emitN (MessageReceived nodeId message) (dispatch message s)) \<and>
      (\<exists>e. events (snd (handleMessage L now nodeId raw s))
             = events s @ [e, MessageReceived nodeId message])) \<and>
   (JSON_parse L raw = Some (JsonObject message) \<and> validateMessage now message \<and>
    msg_type message = MessageType_value RESOURCE_RESPONSE \<longrightarrow>
      events (snd (handleMessage L now nodeId raw s))
        = events s @ [UnknownMessageType message, MessageReceived nodeId message])"
proof -
  obtain e where "dispatch message s = emitN e s"
    using dispatch_events by blast
  then show ?thesis
    by (auto simp: handleMessage_def emitN_def dispatch_def)
qed

theorem handleMessage_dispatch_witness:
  "handleMessage example_codec 1700000000001 ''n1'' example_frame one_peer
     = (None, emitN (MessageReceived ''n1'' example_message) (dispatch example_message one_peer)) \<and>
   events (snd (handleMessage example_codec 1700000000001 ''n1'' example_frame one_peer))
     = events one_peer @ [UnknownMessageType example_message, MessageReceived ''n1'' example_message]"
proof -
  have "JSON_parse example_codec example_frame = Some (JsonObject example_message)"
    by (simp add: example_codec_def)
  moreover have "validateMessage 1700000000001 example_message"
    by (simp add: validateMessage_def example_message_def)
  moreover have "msg_type example_message = MessageType_value RESOURCE_RESPONSE"
    by (simp add: example_message_def)
  ultimately show ?thesis
    using handleMessage_dispatch [of example_codec example_frame example_message
            1700000000001 "''n1''" one_peer]
    by blast
qed

end
